theory Spec2Isabelle
  imports Complex_Main "HOL-Library.AList" "HOL-Library.Sublist"
begin

section \<open>The re-export module \<open>sdk/src/index.js\<close>\<close>

text \<open>
  The file is a list of lines, one statement on each: four imports, one export and a
  trailing source-map comment. An import binds local names to the module specifier they
  come from; the export statement lists the names the module hands on.
\<close>

datatype statement =
    Import "string list" string
  | Export "string list"
  | Comment string

definition index_js :: "statement list" where
  "index_js =
    [Import [''Account''] ''./account'',
     Import [''AleoNetworkClient''] ''./node_connection'',
     Import [''DevelopmentClient''] ''./development_client'',
     Import [''Address'', ''PrivateKey'', ''Signature'', ''ViewKey''] ''@aleohq/wasm'',
     Export [''Account'', ''Address'', ''AleoNetworkClient'', ''DevelopmentClient'',
             ''PrivateKey'', ''Signature'', ''ViewKey''],
     Comment ''# sourceMappingURL=index.js.map'']"

fun is_import :: "statement \<Rightarrow> bool" where
  "is_import (Import _ _) = True"
| "is_import _ = False"

fun is_export :: "statement \<Rightarrow> bool" where
  "is_export (Export _) = True"
| "is_export _ = False"

fun is_comment :: "statement \<Rightarrow> bool" where
  "is_comment (Comment _) = True"
| "is_comment _ = False"

text \<open>The bindings an import statement adds to the module scope: local name and origin.\<close>

fun bindings :: "statement \<Rightarrow> (string \<times> string) list" where
  "bindings (Import names specifier) = map (\<lambda>n. (n, specifier)) names"
| "bindings _ = []"

definition module_scope :: "statement list \<Rightarrow> (string \<times> string) list" where
  "module_scope stmts = concat (map bindings stmts)"

fun exported_names :: "statement \<Rightarrow> string list" where
  "exported_names (Export names) = names"
| "exported_names _ = []"

text \<open>
  The module's exports: every exported name with the module specifier its binding was
  imported from (\<open>None\<close> for a name that no import binds).
\<close>

definition exports :: "statement list \<Rightarrow> (string \<times> string option) list" where
  "exports stmts =
     map (\<lambda>n. (n, map_of (module_scope stmts) n)) (concat (map exported_names stmts))"


section \<open>The worker script \<open>workers/worker.js\<close>: data\<close>

text \<open>
  The worker imports its classes from \<open>@aleohq/sdk\<close>, \<open>expose\<close> and \<open>proxy\<close> from
  \<open>comlink\<close> and \<open>sample_inputs\<close> from \<open>../variables.js\<close>; none of them is under
  \<open>src/\<close>. What the script itself does is create objects, call their methods in a fixed
  order and pass values between the calls. The model keeps exactly that:
  \<^item> values the SDK produces and the script only passes on (programs, keys, accounts,
    execution responses, inputs, outputs, transaction ids) are of an arbitrary type \<open>'v\<close>;
  \<^item> the two kinds of object the script mutates and shares, key providers and program
    managers, live in a store and are named by references;
  \<^item> every call the script makes to an imported function is recorded, in order, in a
    trace (console output is not recorded);
  \<^item> an imported function that parses text, runs the prover or talks to the network may
    throw (its promise may reject): it returns \<open>error + 'a\<close>, and the script, which
    catches nothing inside its functions, stops at the first \<open>Inl\<close>.
\<close>

type_synonym ref = nat

datatype error = Thrown string

text \<open>
  Modelled from the spec: the class \<open>AleoKeyProvider\<close> of \<open>@aleohq/sdk\<close>, which is not
  under \<open>src/\<close>. The spec calls it the proving/verifying key cache, addressed by a string
  key; the model is a list of cached pairs by key, in insertion order, and the flag
  that \<open>useCache\<close> sets.
\<close>

record 'v AleoKeyProvider =
  cache :: "(string \<times> 'v \<times> 'v) list"
  cacheOption :: bool

record AleoNetworkClient =
  nc_host :: string

record 'v NetworkRecordProvider =
  rp_account :: 'v
  rp_networkClient :: AleoNetworkClient

text \<open>
  Modelled from the spec: the class \<open>ProgramManager\<close> of \<open>@aleohq/sdk\<close> (not under
  \<open>src/\<close>), as far as the script relies on it: the constructor keeps its three arguments,
  \<open>setAccount\<close> keeps the account, and \<open>programManager.keyProvider\<close> reads the key
  provider back. The key provider is held by reference.
\<close>

record 'v ProgramManager =
  pm_host :: string
  pm_keyProvider :: ref
  pm_recordProvider :: "'v NetworkRecordProvider option"
  pm_account :: "'v option"

record AleoKeyProviderParams =
  cacheKey :: string

text \<open>The ten positional arguments of \<open>programManager.executeOffline\<close>; \<open>None\<close> is \<open>undefined\<close>.\<close>

record 'v executeOffline_args =
  arg_program :: string
  arg_function :: string
  arg_inputs :: 'v
  arg_proveExecution :: bool
  arg_imports :: "'v option"
  arg_keySearchParams :: AleoKeyProviderParams
  arg_provingKey :: "'v option"
  arg_verifyingKey :: "'v option"
  arg_privateKey :: "'v option"
  arg_cacheFunctionKeys :: bool

text \<open>
  The imported functions the script calls and whose results it uses, taken as parameters.
  A function whose outcome is not determined by its arguments (random key generation,
  proving, the network) also receives the value of the worker's clock, which advances at
  each such call; a method of a program manager receives the program manager and the key
  provider it points to. In the model they only read the store; the script's own calls
  \<open>useCache\<close>, \<open>cacheKeys\<close> and \<open>setAccount\<close> are what writes it.
\<close>

record 'v imported =
  initThreadPool :: "error option"
  Program_fromString :: "string \<Rightarrow> error + 'v"
  Program_id :: "'v \<Rightarrow> string"
  PrivateKey_new :: "nat \<Rightarrow> 'v"
  Account_new :: "nat \<Rightarrow> 'v"
  Account_from_privateKey :: "string \<Rightarrow> error + 'v"
  PM_synthesizeKeys :: "nat \<Rightarrow> 'v ProgramManager \<Rightarrow> 'v AleoKeyProvider \<Rightarrow>
      string \<Rightarrow> string \<Rightarrow> 'v \<Rightarrow> 'v \<Rightarrow> error + 'v \<times> 'v"
  PM_executeOffline :: "nat \<Rightarrow> 'v ProgramManager \<Rightarrow> 'v AleoKeyProvider \<Rightarrow>
      'v executeOffline_args \<Rightarrow> error + 'v"
  PM_verifyExecution :: "nat \<Rightarrow> 'v ProgramManager \<Rightarrow> 'v AleoKeyProvider \<Rightarrow> 'v \<Rightarrow> error + 'v"
  PM_deploy :: "nat \<Rightarrow> 'v ProgramManager \<Rightarrow> 'v AleoKeyProvider \<Rightarrow> string \<Rightarrow> rat \<Rightarrow> error + 'v"
  ExecutionResponse_getKeys :: "'v \<Rightarrow> string \<Rightarrow> string \<Rightarrow> error + 'v"
  KeyPair_provingKey :: "'v \<Rightarrow> 'v"
  KeyPair_verifyingKey :: "'v \<Rightarrow> 'v"
  ExecutionResponse_getOutputs :: "'v \<Rightarrow> 'v"
  ExecutionResponse_toString :: "'v \<Rightarrow> string"
  ExecutionResponse_fromString :: "string \<Rightarrow> error + 'v"
  proxy :: "'v \<Rightarrow> 'v"
  sample_inputs :: 'v

text \<open>The calls the script makes, as recorded in the trace. A method call names its receiver.\<close>

datatype 'v call =
    Call_initThreadPool
  | Call_new_AleoKeyProvider ref
  | Call_useCache ref bool
  | Call_fetchKeys ref string string
  | Call_new_ProgramManager ref string ref "'v NetworkRecordProvider option"
  | Call_new_Account "string option"
  | Call_setAccount ref 'v
  | Call_expose "string list"
  | Call_Program_fromString string
  | Call_Program_id 'v
  | Call_new_PrivateKey
  | Call_synthesizeKeys ref string string 'v 'v
  | Call_cacheKeys ref string "'v \<times> 'v"
  | Call_new_AleoKeyProviderParams string
  | Call_containsKeys ref string
  | Call_executeOffline ref "'v executeOffline_args"
  | Call_getKeys 'v string string
  | Call_verifyingKey 'v
  | Call_provingKey 'v
  | Call_getOutputs 'v
  | Call_toString 'v
  | Call_proxy 'v
  | Call_ExecutionResponse_fromString string
  | Call_verifyExecution ref 'v
  | Call_new_AleoNetworkClient string
  | Call_new_NetworkRecordProvider 'v AleoNetworkClient
  | Call_deploy ref string rat

text \<open>
  The worker's world: the store of key providers and of program managers, the next free
  reference, the clock and the trace.
\<close>

record 'v world =
  kps :: "ref \<Rightarrow> 'v AleoKeyProvider"
  pms :: "ref \<Rightarrow> 'v ProgramManager"
  next_ref :: ref
  clock :: nat
  trace :: "'v call list"

text \<open>The module-level \<open>const\<close> bindings of the script.\<close>

record 'v module =
  module_keyProvider :: ref
  module_programManager :: ref
  module_account :: 'v


section \<open>The worker script: operations\<close>

definition emit :: "'v call \<Rightarrow> 'v world \<Rightarrow> 'v world" where
  "emit c w = w\<lparr>trace := trace w @ [c]\<rparr>"

definition tick :: "'v world \<Rightarrow> 'v world" where
  "tick w = w\<lparr>clock := Suc (clock w)\<rparr>"

text \<open>
  Modelled from the spec: the methods of \<open>AleoKeyProvider\<close> the script calls (the class is
  not under \<open>src/\<close>). A new key provider has an empty cache and caching off; \<open>useCache\<close>
  sets the flag; \<open>cacheKeys\<close> stores a pair under a key, replacing what was there;
  \<open>containsKeys\<close> tells whether a key is in the cache. \<open>fetchKeys\<close> starts a download
  whose promise the script does not await and whose outcome it only logs: the call is
  recorded, and what the download stores later is left open (the theorems about the
  worker's functions hold for every content of the cache).
\<close>

definition new_AleoKeyProvider :: "'v world \<Rightarrow> ref \<times> 'v world" where
  "new_AleoKeyProvider w =
     (next_ref w,
      emit (Call_new_AleoKeyProvider (next_ref w))
        (w\<lparr>kps := (kps w)(next_ref w := \<lparr>cache = [], cacheOption = False\<rparr>),
           next_ref := Suc (next_ref w)\<rparr>))"

definition useCache :: "ref \<Rightarrow> bool \<Rightarrow> 'v world \<Rightarrow> 'v world" where
  "useCache r b w =
     emit (Call_useCache r b) (w\<lparr>kps := (kps w)(r := (kps w r)\<lparr>cacheOption := b\<rparr>)\<rparr>)"

definition cacheKeys :: "ref \<Rightarrow> string \<Rightarrow> 'v \<times> 'v \<Rightarrow> 'v world \<Rightarrow> 'v world" where
  "cacheKeys r keyId keys w =
     emit (Call_cacheKeys r keyId keys)
       (w\<lparr>kps := (kps w)(r := (kps w r)\<lparr>cache := AList.update keyId keys (cache (kps w r))\<rparr>)\<rparr>)"

definition containsKeys :: "ref \<Rightarrow> string \<Rightarrow> 'v world \<Rightarrow> bool \<times> 'v world" where
  "containsKeys r keyId w =
     (keyId \<in> set (map fst (cache (kps w r))), emit (Call_containsKeys r keyId) w)"

definition fetchKeys :: "ref \<Rightarrow> string \<Rightarrow> string \<Rightarrow> 'v world \<Rightarrow> 'v world" where
  "fetchKeys r proverUrl verifierUrl w = emit (Call_fetchKeys r proverUrl verifierUrl) w"

text \<open>Modelled from the spec: the constructor and \<open>setAccount\<close> of \<open>ProgramManager\<close>.\<close>

definition new_ProgramManager ::
  "string \<Rightarrow> ref \<Rightarrow> 'v NetworkRecordProvider option \<Rightarrow> 'v world \<Rightarrow> ref \<times> 'v world" where
  "new_ProgramManager h kp rp w =
     (next_ref w,
      emit (Call_new_ProgramManager (next_ref w) h kp rp)
        (w\<lparr>pms := (pms w)(next_ref w :=
               \<lparr>pm_host = h, pm_keyProvider = kp, pm_recordProvider = rp, pm_account = None\<rparr>),
           next_ref := Suc (next_ref w)\<rparr>))"

definition setAccount :: "ref \<Rightarrow> 'v \<Rightarrow> 'v world \<Rightarrow> 'v world" where
  "setAccount r a w =
     emit (Call_setAccount r a) (w\<lparr>pms := (pms w)(r := (pms w r)\<lparr>pm_account := Some a\<rparr>)\<rparr>)"

subsection \<open>The five functions of the script\<close>

text \<open>
  Each function takes the imported functions, the module-level bindings it closes over,
  its arguments and the world, and returns its result (\<open>Inl\<close> when an imported call
  threw) with the new world. The template literal \<open>`${program.id()}/${aleoFunction}`\<close> is
  the concatenation of the program id, a slash and the function name.
\<close>

definition synthesizeKeys ::
  "'v imported \<Rightarrow> 'v module \<Rightarrow> string \<Rightarrow> string \<Rightarrow> 'v world \<Rightarrow> (error + unit) \<times> 'v world" where
  "synthesizeKeys imp m program_source aleoFunction w0 =
    (let w = emit (Call_Program_fromString program_source) w0 in
     case Program_fromString imp program_source of
       Inl e \<Rightarrow> (Inl e, w)
     | Inr program \<Rightarrow>
        let programManager = module_programManager m;
            private_key = PrivateKey_new imp (clock w);
            w = tick (emit Call_new_PrivateKey w);
            w = emit (Call_synthesizeKeys programManager program_source aleoFunction
                        (sample_inputs imp) private_key) w;
            r = PM_synthesizeKeys imp (clock w) (pms w programManager)
                  (kps w (pm_keyProvider (pms w programManager)))
                  program_source aleoFunction (sample_inputs imp) private_key;
            w = tick w
        in (case r of
              Inl e \<Rightarrow> (Inl e, w)
            | Inr keys \<Rightarrow>
               let w = emit (Call_Program_id program) w;
                   cache_key = Program_id imp program @ ''/'' @ aleoFunction;
                   w = cacheKeys (pm_keyProvider (pms w programManager)) cache_key keys w
               in (Inr (), w)))"

text \<open>
  Lines 70 to 77 of the script, the block under \<open>if (cacheFunctionKeys)\<close>: the keys of the
  execution response are stored under the cache key.
\<close>

definition cache_function_keys ::
  "'v imported \<Rightarrow> ref \<Rightarrow> 'v \<Rightarrow> 'v \<Rightarrow> string \<Rightarrow> AleoKeyProviderParams \<Rightarrow> 'v world \<Rightarrow>
     error option \<times> 'v world" where
  "cache_function_keys imp programManager executionResponse program aleoFunction keySearchParams w0 =
    (let w = emit (Call_Program_id program) w0;
         w = emit (Call_getKeys executionResponse (Program_id imp program) aleoFunction) w
     in case ExecutionResponse_getKeys imp executionResponse (Program_id imp program) aleoFunction of
          Inl e \<Rightarrow> (Some e, w)
        | Inr keys \<Rightarrow>
           let w = emit (Call_verifyingKey keys) w;
               verifyingKey = KeyPair_verifyingKey imp keys;
               w = emit (Call_provingKey keys) w;
               w = cacheKeys (pm_keyProvider (pms w programManager)) (cacheKey keySearchParams)
                     (KeyPair_provingKey imp keys, verifyingKey) w
           in (None, w))"

definition localProgramExecution ::
  "'v imported \<Rightarrow> 'v module \<Rightarrow> string \<Rightarrow> string \<Rightarrow> 'v \<Rightarrow> 'v world \<Rightarrow>
     (error + 'v \<times> string) \<times> 'v world" where
  "localProgramExecution imp m program_source aleoFunction inputs w0 =
    (let w = emit (Call_Program_fromString program_source) w0 in
     case Program_fromString imp program_source of
       Inl e \<Rightarrow> (Inl e, w)
     | Inr program \<Rightarrow>
        let programManager = module_programManager m;
            w = emit (Call_Program_id program) w;
            keySearchParams = \<lparr>cacheKey = Program_id imp program @ ''/'' @ aleoFunction\<rparr>;
            w = emit (Call_new_AleoKeyProviderParams (cacheKey keySearchParams)) w;
            (found, w) = containsKeys (pm_keyProvider (pms w programManager))
                           (cacheKey keySearchParams) w;
            cacheFunctionKeys = (if \<not> found then True else False);
            args = \<lparr>arg_program = program_source, arg_function = aleoFunction,
                    arg_inputs = inputs, arg_proveExecution = True, arg_imports = None,
                    arg_keySearchParams = keySearchParams, arg_provingKey = None,
                    arg_verifyingKey = None, arg_privateKey = None,
                    arg_cacheFunctionKeys = cacheFunctionKeys\<rparr>;
            w = emit (Call_executeOffline programManager args) w;
            r = PM_executeOffline imp (clock w) (pms w programManager)
                  (kps w (pm_keyProvider (pms w programManager))) args;
            w = tick w
        in (case r of
             Inl e \<Rightarrow> (Inl e, w)
           | Inr executionResponse \<Rightarrow>
              (case (if cacheFunctionKeys
                     then cache_function_keys imp programManager executionResponse program
                            aleoFunction keySearchParams w
                     else (None, w)) of
                 (Some e, w) \<Rightarrow> (Inl e, w)
               | (None, w) \<Rightarrow>
                  let w = emit (Call_getOutputs executionResponse) w;
                      outputs = ExecutionResponse_getOutputs imp executionResponse;
                      w = emit (Call_toString executionResponse) w;
                      execution = ExecutionResponse_toString imp executionResponse
                  in (Inr (outputs, execution), w))))"

definition getPrivateKey :: "'v imported \<Rightarrow> 'v module \<Rightarrow> 'v world \<Rightarrow> 'v \<times> 'v world" where
  "getPrivateKey imp m w0 =
    (let key = PrivateKey_new imp (clock w0);
         w = tick (emit Call_new_PrivateKey w0);
         w = emit (Call_proxy key) w
     in (proxy imp key, w))"

definition verifyExecution ::
  "'v imported \<Rightarrow> 'v module \<Rightarrow> string \<Rightarrow> 'v world \<Rightarrow> (error + 'v) \<times> 'v world" where
  "verifyExecution imp m execution w0 =
    (let w = emit (Call_ExecutionResponse_fromString execution) w0 in
     case ExecutionResponse_fromString imp execution of
       Inl e \<Rightarrow> (Inl e, w)
     | Inr executionResponse \<Rightarrow>
        let programManager = module_programManager m;
            w = emit (Call_verifyExecution programManager executionResponse) w;
            r = PM_verifyExecution imp (clock w) (pms w programManager)
                  (kps w (pm_keyProvider (pms w programManager))) executionResponse
        in (r, tick w))"

text \<open>
  In \<open>deployProgram\<close> the names \<open>keyProvider\<close>, \<open>account\<close> and \<open>programManager\<close> are local
  constants that shadow the module-level ones. The fee is the number literal \<open>1.9\<close>; the
  script does no arithmetic on it.
\<close>

definition deployProgram ::
  "'v imported \<Rightarrow> 'v module \<Rightarrow> string \<Rightarrow> 'v world \<Rightarrow> (error + 'v) \<times> 'v world" where
  "deployProgram imp m program w0 =
    (let (keyProvider, w) = new_AleoKeyProvider w0;
         w = useCache keyProvider True w;
         networkClient = \<lparr>nc_host = ''https://api.explorer.aleo.org/v1''\<rparr>;
         w = emit (Call_new_AleoNetworkClient ''https://api.explorer.aleo.org/v1'') w;
         w = emit (Call_new_Account (Some ''user1PrivateKey'')) w
     in case Account_from_privateKey imp ''user1PrivateKey'' of
          Inl e \<Rightarrow> (Inl e, w)
        | Inr account \<Rightarrow>
           let recordProvider = \<lparr>rp_account = account, rp_networkClient = networkClient\<rparr>;
               w = emit (Call_new_NetworkRecordProvider account networkClient) w;
               (programManager, w) =
                  new_ProgramManager ''https://api.explorer.aleo.org/v1'' keyProvider
                    (Some recordProvider) w;
               w = setAccount programManager account w;
               fee = 19 / 10;
               w = emit (Call_deploy programManager program fee) w;
               tx_id = PM_deploy imp (clock w) (pms w programManager)
                         (kps w (pm_keyProvider (pms w programManager))) program fee
           in (tx_id, tick w))"

subsection \<open>The exposed object and module evaluation\<close>

text \<open>
  The object literal \<open>{ deployProgram, getPrivateKey, localProgramExecution, synthesizeKeys,
  verifyExecution }\<close>: each shorthand property has the name of the function it holds.
  Comlink's \<open>expose\<close> makes the properties of the object callable by name from the page.
\<close>

datatype worker_function =
    Fn_deployProgram
  | Fn_getPrivateKey
  | Fn_localProgramExecution
  | Fn_synthesizeKeys
  | Fn_verifyExecution

definition workerMethods :: "(string \<times> worker_function) list" where
  "workerMethods =
     [(''deployProgram'', Fn_deployProgram),
      (''getPrivateKey'', Fn_getPrivateKey),
      (''localProgramExecution'', Fn_localProgramExecution),
      (''synthesizeKeys'', Fn_synthesizeKeys),
      (''verifyExecution'', Fn_verifyExecution)]"

definition remote_callable :: "string \<Rightarrow> worker_function option" where
  "remote_callable name = map_of workerMethods name"

definition world0 :: "'v world" where
  "world0 =
     \<lparr>kps = (\<lambda>_. \<lparr>cache = [], cacheOption = False\<rparr>),
      pms = (\<lambda>_. \<lparr>pm_host = [], pm_keyProvider = 0, pm_recordProvider = None,
                   pm_account = None\<rparr>),
      next_ref = 0, clock = 0, trace = []\<rparr>"

text \<open>
  Module evaluation, lines 17 to 37 and 131 to 132. The top-level \<open>await\<close> of
  \<open>initThreadPool\<close> aborts the evaluation when it rejects, so \<open>expose\<close> is reached only
  after everything before it has run.
\<close>

definition worker_init :: "'v imported \<Rightarrow> error + 'v module \<times> 'v world" where
  "worker_init imp =
    (let w = emit Call_initThreadPool world0 in
     case initThreadPool imp of
       Some e \<Rightarrow> Inl e
     | None \<Rightarrow>
        let (keyProvider, w) = new_AleoKeyProvider w;
            w = useCache keyProvider True w;
            w = fetchKeys keyProvider
                  ''https://pub-65a47b199b944d48a057ca6603a415a2.r2.dev/tree_mnist_2.prover.30e265c''
                  ''https://pub-65a47b199b944d48a057ca6603a415a2.r2.dev/tree_mnist_2.verifier.17db860''
                  w;
            w = useCache keyProvider True w;
            (programManager, w) =
               new_ProgramManager ''https://api.explorer.aleo.org/v1'' keyProvider None w;
            account = Account_new imp (clock w);
            w = tick (emit (Call_new_Account None) w);
            w = setAccount programManager account w;
            w = emit (Call_expose (map fst workerMethods)) w
        in Inr (\<lparr>module_keyProvider = keyProvider, module_programManager = programManager,
                  module_account = account\<rparr>, w))"

text \<open>A call message from the page for one of the exposed functions, with its arguments.\<close>

datatype 'v invocation =
    Invoke_deployProgram string
  | Invoke_getPrivateKey
  | Invoke_localProgramExecution string string 'v
  | Invoke_synthesizeKeys string string
  | Invoke_verifyExecution string

fun invoke :: "'v imported \<Rightarrow> 'v module \<Rightarrow> 'v invocation \<Rightarrow> 'v world \<Rightarrow> 'v world" where
  "invoke imp m (Invoke_deployProgram program) w = snd (deployProgram imp m program w)"
| "invoke imp m Invoke_getPrivateKey w = snd (getPrivateKey imp m w)"
| "invoke imp m (Invoke_localProgramExecution program_source aleoFunction inputs) w =
     snd (localProgramExecution imp m program_source aleoFunction inputs w)"
| "invoke imp m (Invoke_synthesizeKeys program_source aleoFunction) w =
     snd (synthesizeKeys imp m program_source aleoFunction w)"
| "invoke imp m (Invoke_verifyExecution execution) w = snd (verifyExecution imp m execution w)"

text \<open>A sequence of invocations, each run to its end before the next begins.\<close>

fun run :: "'v imported \<Rightarrow> 'v module \<Rightarrow> 'v invocation list \<Rightarrow> 'v world \<Rightarrow> 'v world" where
  "run imp m [] w = w"
| "run imp m (i # is) w = run imp m is (invoke imp m i w)"

text \<open>The calls recorded between two worlds.\<close>

definition emitted :: "'v world \<Rightarrow> 'v world \<Rightarrow> 'v call list" where
  "emitted w w' = drop (length (trace w)) (trace w')"


subsection \<open>Reading a trace\<close>

text \<open>The cache keys a call carries: the key stored under, looked up, or searched by.\<close>

fun cache_keys_of :: "'v call \<Rightarrow> string list" where
  "cache_keys_of (Call_cacheKeys r keyId keys) = [keyId]"
| "cache_keys_of (Call_containsKeys r keyId) = [keyId]"
| "cache_keys_of (Call_new_AleoKeyProviderParams keyId) = [keyId]"
| "cache_keys_of (Call_executeOffline r args) = [cacheKey (arg_keySearchParams args)]"
| "cache_keys_of _ = []"

definition cache_keys :: "'v call list \<Rightarrow> string list" where
  "cache_keys cs = concat (map cache_keys_of cs)"

fun is_cacheKeys :: "'v call \<Rightarrow> bool" where
  "is_cacheKeys (Call_cacheKeys _ _ _) = True"
| "is_cacheKeys _ = False"

text \<open>The argument lists of the calls to \<open>executeOffline\<close> in a trace.\<close>

fun executeOffline_args_of :: "'v call \<Rightarrow> 'v executeOffline_args list" where
  "executeOffline_args_of (Call_executeOffline r args) = [args]"
| "executeOffline_args_of _ = []"

definition executeOffline_calls :: "'v call list \<Rightarrow> 'v executeOffline_args list" where
  "executeOffline_calls cs = concat (map executeOffline_args_of cs)"

fun is_deploy :: "'v call \<Rightarrow> bool" where
  "is_deploy (Call_deploy _ _ _) = True"
| "is_deploy _ = False"

text \<open>The property names of the objects handed to \<open>expose\<close> in a trace.\<close>

fun exposed_of :: "'v call \<Rightarrow> string list list" where
  "exposed_of (Call_expose names) = [names]"
| "exposed_of _ = []"

definition exposed :: "'v call list \<Rightarrow> string list list" where
  "exposed cs = concat (map exposed_of cs)"

text \<open>The stages of the offline execution pipeline, as the calls that start them.\<close>

datatype stage = Parsing | Execution | Output_extraction

fun stage_of :: "'v call \<Rightarrow> stage list" where
  "stage_of (Call_Program_fromString _) = [Parsing]"
| "stage_of (Call_executeOffline _ _) = [Execution]"
| "stage_of (Call_getOutputs _) = [Output_extraction]"
| "stage_of _ = []"

definition stages :: "'v call list \<Rightarrow> stage list" where
  "stages cs = concat (map stage_of cs)"

text \<open>The references to stored objects that a call names, as receiver or as argument.\<close>

fun refs_of :: "'v call \<Rightarrow> ref list" where
  "refs_of (Call_new_AleoKeyProvider r) = [r]"
| "refs_of (Call_useCache r _) = [r]"
| "refs_of (Call_fetchKeys r _ _) = [r]"
| "refs_of (Call_new_ProgramManager r _ kp _) = [r, kp]"
| "refs_of (Call_setAccount r _) = [r]"
| "refs_of (Call_synthesizeKeys r _ _ _ _) = [r]"
| "refs_of (Call_cacheKeys r _ _) = [r]"
| "refs_of (Call_containsKeys r _) = [r]"
| "refs_of (Call_executeOffline r _) = [r]"
| "refs_of (Call_verifyExecution r _) = [r]"
| "refs_of (Call_deploy r _ _) = [r]"
| "refs_of _ = []"

text \<open>
  What module evaluation sets up and every exposed function keeps: the module-level
  program manager points to the module-level key provider, caching is on there, and
  both objects are allocated.
\<close>

definition caching_wired :: "'v module \<Rightarrow> 'v world \<Rightarrow> bool" where
  "caching_wired m w \<longleftrightarrow>
     pm_keyProvider (pms w (module_programManager m)) = module_keyProvider m \<and>
     cacheOption (kps w (module_keyProvider m)) \<and>
     module_keyProvider m < next_ref w \<and>
     module_programManager m < next_ref w"

subsection \<open>An instance of the imported functions\<close>

text \<open>
  A small instance on strings, on which the model runs: a program is its source text and
  its id, the empty source does not parse, an execution response prints as itself.
\<close>

definition sample_imports :: "string imported" where
  "sample_imports =
     \<lparr>initThreadPool = None,
      Program_fromString = (\<lambda>s. if s = [] then Inl (Thrown ''parse'') else Inr s),
      Program_id = (\<lambda>p. p),
      PrivateKey_new = (\<lambda>n. ''private-key''),
      Account_new = (\<lambda>n. ''account''),
      Account_from_privateKey = (\<lambda>s. Inr (''account of '' @ s)),
      PM_synthesizeKeys = (\<lambda>t pm kp p f i k. Inr (''pk'', ''vk'')),
      PM_executeOffline = (\<lambda>t pm kp args. Inr ''response''),
      PM_verifyExecution = (\<lambda>t pm kp r. Inr ''true''),
      PM_deploy = (\<lambda>t pm kp p fee. Inr ''tx''),
      ExecutionResponse_getKeys = (\<lambda>r p f. Inr ''keypair''),
      KeyPair_provingKey = (\<lambda>k. ''pk''),
      KeyPair_verifyingKey = (\<lambda>k. ''vk''),
      ExecutionResponse_getOutputs = (\<lambda>r. ''outputs''),
      ExecutionResponse_toString = (\<lambda>r. r),
      ExecutionResponse_fromString = (\<lambda>s. Inr s),
      proxy = (\<lambda>k. k),
      sample_inputs = ''inputs''\<rparr>"

text \<open>The module bindings and the world that module evaluation yields on this instance.\<close>

definition sample_module :: "string module" where
  "sample_module =
     \<lparr>module_keyProvider = 0, module_programManager = Suc 0, module_account = ''account''\<rparr>"

definition sample_world :: "string world" where
  "sample_world = (case worker_init sample_imports of Inl e \<Rightarrow> world0 | Inr (m, w) \<Rightarrow> w)"

text \<open>The same world after one local execution, which has cached the keys of \<open>p.aleo/main\<close>.\<close>

definition sample_world_cached :: "string world" where
  "sample_world_cached =
     snd (localProgramExecution sample_imports sample_module ''p.aleo'' ''main'' ''inputs''
            sample_world)"

section \<open>Theorems\<close>

lemmas prim_defs = emit_def tick_def new_AleoKeyProvider_def useCache_def cacheKeys_def
  containsKeys_def fetchKeys_def new_ProgramManager_def setAccount_def

lemma map_of_update_other:
  "k \<noteq> k' \<Longrightarrow> map_of (AList.update k' v al) k = map_of al k"
  by (simp add: update_conv')

subsection \<open>The sample instance\<close>

lemma sample_init: "worker_init sample_imports = Inr (sample_module, sample_world)"
  by (simp add: sample_world_def sample_module_def worker_init_def sample_imports_def
      prim_defs world0_def Let_def)

lemma sample_parse: "Program_fromString sample_imports ''p.aleo'' = Inr ''p.aleo''"
  by (simp add: sample_imports_def)

lemma sample_id: "Program_id sample_imports p = p"
  by (simp add: sample_imports_def)

lemma sample_world_store:
  "kps sample_world 0 = \<lparr>cache = [], cacheOption = True\<rparr> \<and>
   pms sample_world (Suc 0) =
     \<lparr>pm_host = ''https://api.explorer.aleo.org/v1'', pm_keyProvider = 0,
      pm_recordProvider = None, pm_account = Some ''account''\<rparr> \<and>
   next_ref sample_world = 2 \<and> clock sample_world = 1"
  by (simp add: sample_world_def worker_init_def sample_imports_def prim_defs world0_def Let_def)

lemma sample_world_cached_store:
  "kps sample_world_cached 0 = \<lparr>cache = [(''p.aleo/main'', ''pk'', ''vk'')], cacheOption = True\<rparr> \<and>
   pms sample_world_cached (Suc 0) = pms sample_world (Suc 0) \<and>
   next_ref sample_world_cached = 2 \<and> clock sample_world_cached = 2"
  using sample_world_store
  by (simp add: sample_world_cached_def localProgramExecution_def cache_function_keys_def
      sample_imports_def sample_module_def prim_defs Let_def)

subsection \<open>The exposed methods\<close>

text \<open>
  Claim C1: the object handed to \<open>expose\<close> has exactly five properties, named
  deployProgram, getPrivateKey, localProgramExecution, synthesizeKeys and verifyExecution,
  each holding the function of that name; no other name is callable; and module
  evaluation, when it completes, has called \<open>expose\<close> once, on these five names.
\<close>

theorem workerMethods_exactly_five:
  "map fst workerMethods =
     [''deployProgram'', ''getPrivateKey'', ''localProgramExecution'', ''synthesizeKeys'',
      ''verifyExecution''] \<and>
   distinct (map fst workerMethods) \<and>
   dom remote_callable =
     {''deployProgram'', ''getPrivateKey'', ''localProgramExecution'', ''synthesizeKeys'',
      ''verifyExecution''} \<and>
   card (dom remote_callable) = 5 \<and>
   remote_callable ''deployProgram'' = Some Fn_deployProgram \<and>
   remote_callable ''getPrivateKey'' = Some Fn_getPrivateKey \<and>
   remote_callable ''localProgramExecution'' = Some Fn_localProgramExecution \<and>
   remote_callable ''synthesizeKeys'' = Some Fn_synthesizeKeys \<and>
   remote_callable ''verifyExecution'' = Some Fn_verifyExecution \<and>
   (\<forall>imp m w0. worker_init imp = Inr (m, w0) \<longrightarrow>
      exposed (trace w0) =
        [[''deployProgram'', ''getPrivateKey'', ''localProgramExecution'', ''synthesizeKeys'',
          ''verifyExecution'']])"
proof -
  have rc: "remote_callable = map_of workerMethods"
    by (rule ext) (simp add: remote_callable_def)
  have d: "dom remote_callable = set (map fst workerMethods)"
    unfolding rc by (simp only: dom_map_of_conv_image_fst set_map)
  have names: "map fst workerMethods =
     [''deployProgram'', ''getPrivateKey'', ''localProgramExecution'', ''synthesizeKeys'',
      ''verifyExecution'']"
    by (simp add: workerMethods_def)
  have dist: "distinct (map fst workerMethods)"
    unfolding names by simp
  have c: "card (dom remote_callable) = 5"
    unfolding d using distinct_card[OF dist] by (simp add: workerMethods_def)
  have d': "dom remote_callable =
     {''deployProgram'', ''getPrivateKey'', ''localProgramExecution'', ''synthesizeKeys'',
      ''verifyExecution''}"
    unfolding d names by simp
  have lookups: "remote_callable ''deployProgram'' = Some Fn_deployProgram \<and>
   remote_callable ''getPrivateKey'' = Some Fn_getPrivateKey \<and>
   remote_callable ''localProgramExecution'' = Some Fn_localProgramExecution \<and>
   remote_callable ''synthesizeKeys'' = Some Fn_synthesizeKeys \<and>
   remote_callable ''verifyExecution'' = Some Fn_verifyExecution"
    by (simp add: remote_callable_def workerMethods_def)
  have once: "exposed (trace w0) = [map fst workerMethods]"
    if "worker_init imp = Inr (m, w0)" for imp :: "'a imported" and m w0
    using that
    by (auto simp add: worker_init_def exposed_def prim_defs world0_def Let_def
        split: option.splits)
  from names dist d' c lookups once show ?thesis
    unfolding names by blast
qed

text \<open>On the sample instance module evaluation completes and exposes the five names.\<close>

theorem workerMethods_exactly_five_witness:
  "worker_init sample_imports = Inr (sample_module, sample_world) \<and>
   exposed (trace sample_world) =
     [[''deployProgram'', ''getPrivateKey'', ''localProgramExecution'', ''synthesizeKeys'',
       ''verifyExecution'']]"
  using workerMethods_exactly_five sample_init by blast

subsection \<open>What a local execution does\<close>

lemmas lpe_defs = localProgramExecution_def cache_function_keys_def emitted_def prim_defs Let_def

lemma lpe_returns:
  assumes "fst (localProgramExecution imp m program_source aleoFunction inputs w)
             = Inr (outputs, execution)"
  shows "\<exists>args executionResponse.
           executeOffline_calls
             (emitted w (snd (localProgramExecution imp m program_source aleoFunction inputs w)))
             = [args] \<and>
           arg_program args = program_source \<and>
           arg_function args = aleoFunction \<and>
           arg_inputs args = inputs \<and>
           arg_proveExecution args \<and>
           PM_executeOffline imp (clock w) (pms w (module_programManager m))
             (kps w (pm_keyProvider (pms w (module_programManager m)))) args
             = Inr executionResponse \<and>
           (\<exists>before.
              emitted w (snd (localProgramExecution imp m program_source aleoFunction inputs w))
                = before @ [Call_getOutputs executionResponse, Call_toString executionResponse]) \<and>
           stages (emitted w (snd (localProgramExecution imp m program_source aleoFunction inputs w)))
             = [Parsing, Execution, Output_extraction] \<and>
           outputs = ExecutionResponse_getOutputs imp executionResponse \<and>
           execution = ExecutionResponse_toString imp executionResponse"
  using assms
  by (auto simp add: lpe_defs executeOffline_calls_def stages_def
      split: sum.splits prod.splits option.splits if_splits)

lemma lpe_stages_prefix:
  "prefix
     (stages (emitted w (snd (localProgramExecution imp m program_source aleoFunction inputs w))))
     [Parsing, Execution, Output_extraction]"
  by (simp add: lpe_defs stages_def split: sum.splits prod.splits option.splits)

lemma lpe_first_call:
  "hd (emitted w (snd (localProgramExecution imp m program_source aleoFunction inputs w)))
     = Call_Program_fromString program_source"
  by (simp add: lpe_defs split: sum.splits prod.splits option.splits)

lemma lpe_fails:
  assumes "fst (localProgramExecution imp m program_source aleoFunction inputs w) = Inl e"
  shows "Program_fromString imp program_source = Inl e \<or>
      (\<exists>args. PM_executeOffline imp (clock w) (pms w (module_programManager m))
                 (kps w (pm_keyProvider (pms w (module_programManager m)))) args = Inl e) \<or>
      (\<exists>executionResponse program.
         ExecutionResponse_getKeys imp executionResponse (Program_id imp program) aleoFunction
           = Inl e)"
  using assms
  by (auto simp add: lpe_defs split: sum.splits prod.splits option.splits if_splits)

lemma lpe_prove_flags:
  "set (map arg_proveExecution
          (executeOffline_calls
             (emitted w (snd (localProgramExecution imp m program_source aleoFunction inputs w)))))
     \<subseteq> {True}"
  by (simp add: lpe_defs executeOffline_calls_def split: sum.splits prod.splits option.splits)

lemma lpe_proves_once:
  "Program_fromString imp program_source = Inr program \<Longrightarrow>
      map arg_proveExecution
        (executeOffline_calls
           (emitted w (snd (localProgramExecution imp m program_source aleoFunction inputs w))))
        = [True]"
  by (simp add: lpe_defs executeOffline_calls_def split: sum.splits prod.splits option.splits)

lemma lpe_cache_keys:
  "Program_fromString imp program_source = Inr program \<Longrightarrow>
   set (cache_keys (emitted w
          (snd (localProgramExecution imp m program_source aleoFunction inputs w))))
     = {Program_id imp program @ ''/'' @ aleoFunction}"
  by (auto simp add: lpe_defs cache_keys_def split: sum.splits prod.splits option.splits)

lemma lpe_cache_frame:
  "Program_fromString imp program_source = Inr program \<Longrightarrow>
   k \<noteq> Program_id imp program @ ''/'' @ aleoFunction \<Longrightarrow>
   map_of (cache (kps (snd
       (localProgramExecution imp m program_source aleoFunction inputs w)) r)) k =
     map_of (cache (kps w r)) k"
  by (simp add: lpe_defs map_of_update_other split: sum.splits prod.splits option.splits)

lemma lpe_leaves_keys_cached:
  assumes "Program_fromString imp program_source = Inr program"
      and "fst (localProgramExecution imp m program_source aleoFunction inputs w)
             = Inr result"
  shows "fst (containsKeys (pm_keyProvider (pms w (module_programManager m)))
                (Program_id imp program @ ''/'' @ aleoFunction)
                (snd (localProgramExecution imp m program_source aleoFunction inputs w)))"
  using assms
  by (auto simp add: lpe_defs dom_update split: sum.splits prod.splits option.splits if_splits)

lemma lpe_parse_fails:
  "Program_fromString imp program_source = Inl e \<Longrightarrow>
   localProgramExecution imp m program_source aleoFunction inputs w =
     (Inl e, emit (Call_Program_fromString program_source) w)"
  by (simp add: localProgramExecution_def)

subsection \<open>What a key synthesis does\<close>

lemmas synth_defs = synthesizeKeys_def emitted_def prim_defs Let_def

lemma synth_parse_fails:
  "Program_fromString imp program_source = Inl e \<Longrightarrow>
   synthesizeKeys imp m program_source aleoFunction w =
     (Inl e, emit (Call_Program_fromString program_source) w)"
  by (simp add: synthesizeKeys_def)

lemma synth_cache_keys:
  "Program_fromString imp program_source = Inr program \<Longrightarrow>
   set (cache_keys (emitted w (snd (synthesizeKeys imp m program_source aleoFunction w))))
     \<subseteq> {Program_id imp program @ ''/'' @ aleoFunction}"
  by (simp add: synth_defs cache_keys_def split: sum.splits)

lemma synth_cache_frame:
  "Program_fromString imp program_source = Inr program \<Longrightarrow>
   k \<noteq> Program_id imp program @ ''/'' @ aleoFunction \<Longrightarrow>
   map_of (cache (kps (snd (synthesizeKeys imp m program_source aleoFunction w)) r)) k =
     map_of (cache (kps w r)) k"
  by (simp add: synth_defs map_of_update_other split: sum.splits)

lemma verifyExecution_reads_back:
  "ExecutionResponse_fromString imp execution = Inr executionResponse \<Longrightarrow>
     fst (verifyExecution imp m execution w) =
       PM_verifyExecution imp (clock w) (pms w (module_programManager m))
         (kps w (pm_keyProvider (pms w (module_programManager m)))) executionResponse \<and>
     emitted w (snd (verifyExecution imp m execution w)) =
       [Call_ExecutionResponse_fromString execution,
        Call_verifyExecution (module_programManager m) executionResponse]"
  by (simp add: verifyExecution_def emitted_def prim_defs Let_def)

subsection \<open>The cache key\<close>

text \<open>
  Claim C2: in every call to \<open>synthesizeKeys\<close> and in every call to
  \<open>localProgramExecution\<close>, every cache key the call passes on (to \<open>cacheKeys\<close>, to
  \<open>containsKeys\<close>, in the key search parameters) is the program id, a slash and the
  function name, and the cache of every key provider is unchanged at every other key.
  When the program source does not parse there is no program id and no cache key is used.
  Nothing else in the script calls \<open>cacheKeys\<close>: not \<open>deployProgram\<close>, \<open>getPrivateKey\<close>
  or \<open>verifyExecution\<close>, and not module evaluation.
\<close>

theorem cache_key_is_program_id_and_function:
  "(case Program_fromString imp program_source of
      Inl e \<Rightarrow>
        cache_keys (emitted w (snd (synthesizeKeys imp m program_source aleoFunction w))) = [] \<and>
        cache_keys (emitted w
          (snd (localProgramExecution imp m program_source aleoFunction inputs w))) = []
    | Inr program \<Rightarrow>
        set (cache_keys (emitted w (snd (synthesizeKeys imp m program_source aleoFunction w))))
          \<subseteq> {Program_id imp program @ ''/'' @ aleoFunction} \<and>
        set (cache_keys (emitted w
          (snd (localProgramExecution imp m program_source aleoFunction inputs w))))
          = {Program_id imp program @ ''/'' @ aleoFunction} \<and>
        (\<forall>r k. k \<noteq> Program_id imp program @ ''/'' @ aleoFunction \<longrightarrow>
           map_of (cache (kps (snd (synthesizeKeys imp m program_source aleoFunction w)) r)) k =
             map_of (cache (kps w r)) k \<and>
           map_of (cache (kps (snd
               (localProgramExecution imp m program_source aleoFunction inputs w)) r)) k =
             map_of (cache (kps w r)) k)) \<and>
   filter is_cacheKeys (emitted w (snd (deployProgram imp m program_source w))) = [] \<and>
   filter is_cacheKeys (emitted w (snd (getPrivateKey imp m w))) = [] \<and>
   filter is_cacheKeys (emitted w (snd (verifyExecution imp m execution w))) = [] \<and>
   (\<forall>m0 w0. worker_init imp = Inr (m0, w0) \<longrightarrow> filter is_cacheKeys (trace w0) = [])"
proof -
  have keys: "(case Program_fromString imp program_source of
      Inl e \<Rightarrow>
        cache_keys (emitted w (snd (synthesizeKeys imp m program_source aleoFunction w))) = [] \<and>
        cache_keys (emitted w
          (snd (localProgramExecution imp m program_source aleoFunction inputs w))) = []
    | Inr program \<Rightarrow>
        set (cache_keys (emitted w (snd (synthesizeKeys imp m program_source aleoFunction w))))
          \<subseteq> {Program_id imp program @ ''/'' @ aleoFunction} \<and>
        set (cache_keys (emitted w
          (snd (localProgramExecution imp m program_source aleoFunction inputs w))))
          = {Program_id imp program @ ''/'' @ aleoFunction} \<and>
        (\<forall>r k. k \<noteq> Program_id imp program @ ''/'' @ aleoFunction \<longrightarrow>
           map_of (cache (kps (snd (synthesizeKeys imp m program_source aleoFunction w)) r)) k =
             map_of (cache (kps w r)) k \<and>
           map_of (cache (kps (snd
               (localProgramExecution imp m program_source aleoFunction inputs w)) r)) k =
             map_of (cache (kps w r)) k))"
  proof (cases "Program_fromString imp program_source")
    case (Inl e)
    then show ?thesis
      by (simp add: synth_parse_fails lpe_parse_fails emitted_def emit_def cache_keys_def)
  next
    case (Inr program)
    have a: "set (cache_keys (emitted w (snd (synthesizeKeys imp m program_source aleoFunction w))))
            \<subseteq> {Program_id imp program @ ''/'' @ aleoFunction}"
      by (rule synth_cache_keys[OF Inr])
    have b: "set (cache_keys (emitted w
            (snd (localProgramExecution imp m program_source aleoFunction inputs w))))
            = {Program_id imp program @ ''/'' @ aleoFunction}"
      by (rule lpe_cache_keys[OF Inr])
    have c: "\<forall>r k. k \<noteq> Program_id imp program @ ''/'' @ aleoFunction \<longrightarrow>
             map_of (cache (kps (snd (synthesizeKeys imp m program_source aleoFunction w)) r)) k =
               map_of (cache (kps w r)) k \<and>
             map_of (cache (kps (snd
                 (localProgramExecution imp m program_source aleoFunction inputs w)) r)) k =
               map_of (cache (kps w r)) k"
      using synth_cache_frame[OF Inr] lpe_cache_frame[OF Inr] by blast
    from a b c show ?thesis
      unfolding Inr sum.case by blast
  qed
  have deploy: "filter is_cacheKeys (emitted w (snd (deployProgram imp m program_source w))) = []"
    by (simp add: deployProgram_def emitted_def prim_defs Let_def split: sum.splits)
  have private_key: "filter is_cacheKeys (emitted w (snd (getPrivateKey imp m w))) = []"
    by (simp add: getPrivateKey_def emitted_def prim_defs Let_def)
  have verify: "filter is_cacheKeys (emitted w (snd (verifyExecution imp m execution w))) = []"
    by (simp add: verifyExecution_def emitted_def prim_defs Let_def split: sum.splits)
  have evaluation: "filter is_cacheKeys (trace w0) = []"
    if "worker_init imp = Inr (m0, w0)" for m0 w0
    using that
    by (auto simp add: worker_init_def prim_defs world0_def Let_def split: option.splits)
  from keys deploy private_key verify evaluation show ?thesis
    by blast
qed

text \<open>
  On the sample instance: synthesizing and executing \<open>main\<close> of \<open>p.aleo\<close> uses the key
  \<open>p.aleo/main\<close> only, stores the keys under it and leaves another key as it was.
\<close>

theorem cache_key_is_program_id_and_function_witness:
  "Program_fromString sample_imports ''p.aleo'' = Inr ''p.aleo'' \<and>
   ''q.aleo/main'' \<noteq> Program_id sample_imports ''p.aleo'' @ ''/'' @ ''main'' \<and>
   set (cache_keys (emitted sample_world
      (snd (synthesizeKeys sample_imports sample_module ''p.aleo'' ''main'' sample_world))))
     \<subseteq> {''p.aleo/main''} \<and>
   set (cache_keys (emitted sample_world
      (snd (localProgramExecution sample_imports sample_module ''p.aleo'' ''main'' ''inputs''
              sample_world))))
     = {''p.aleo/main''} \<and>
   map_of (cache (kps (snd (synthesizeKeys sample_imports sample_module ''p.aleo'' ''main''
                              sample_world)) 0)) ''q.aleo/main'' =
     map_of (cache (kps sample_world 0)) ''q.aleo/main'' \<and>
   cache (kps (snd (synthesizeKeys sample_imports sample_module ''p.aleo'' ''main''
                      sample_world)) 0) = [(''p.aleo/main'', ''pk'', ''vk'')]"
proof -
  have other: "''q.aleo/main'' \<noteq> Program_id sample_imports ''p.aleo'' @ ''/'' @ ''main''"
    by (simp add: sample_id)
  have stored: "cache (kps (snd (synthesizeKeys sample_imports sample_module ''p.aleo'' ''main''
                      sample_world)) 0) = [(''p.aleo/main'', ''pk'', ''vk'')]"
    using sample_world_store
    by (simp add: synthesizeKeys_def sample_imports_def sample_module_def prim_defs Let_def)
  note t = cache_key_is_program_id_and_function
         [where imp = sample_imports and program_source = "''p.aleo''" and w = sample_world
            and m = sample_module and aleoFunction = "''main''" and inputs = "''inputs''"]
  from t have "\<forall>r k. k \<noteq> ''p.aleo/main'' \<longrightarrow>
      map_of (cache (kps (snd (synthesizeKeys sample_imports sample_module ''p.aleo'' ''main''
                                 sample_world)) r)) k =
        map_of (cache (kps sample_world r)) k"
    by (simp add: sample_parse sample_id)
  then have frame: "map_of (cache (kps (snd (synthesizeKeys sample_imports sample_module
                       ''p.aleo'' ''main'' sample_world)) 0)) ''q.aleo/main'' =
     map_of (cache (kps sample_world 0)) ''q.aleo/main''"
    by simp
  from t frame other stored show ?thesis
    by (simp add: sample_parse sample_id)
qed

subsection \<open>No second synthesis\<close>

text \<open>
  Claim C3: when the program source parses and the key provider of the module-level
  program manager already holds keys under the program id, a slash and the function
  name, a call to \<open>localProgramExecution\<close> calls \<open>executeOffline\<close> once, with the
  \<open>cacheFunctionKeys\<close> flag false, makes no call to \<open>cacheKeys\<close>, and leaves every key
  provider (and every program manager) as it was.
\<close>

theorem cached_keys_no_synthesis:
  assumes "Program_fromString imp program_source = Inr program"
      and "fst (containsKeys (pm_keyProvider (pms w (module_programManager m)))
                  (Program_id imp program @ ''/'' @ aleoFunction) w)"
  shows "map arg_cacheFunctionKeys
           (executeOffline_calls
              (emitted w (snd (localProgramExecution imp m program_source aleoFunction inputs w))))
           = [False] \<and>
         filter is_cacheKeys
           (emitted w (snd (localProgramExecution imp m program_source aleoFunction inputs w)))
           = [] \<and>
         kps (snd (localProgramExecution imp m program_source aleoFunction inputs w)) = kps w \<and>
         pms (snd (localProgramExecution imp m program_source aleoFunction inputs w)) = pms w"
  using assms
  by (auto simp add: localProgramExecution_def cache_function_keys_def
      emitted_def prim_defs Let_def executeOffline_calls_def
      split: sum.splits prod.splits option.splits if_splits)

text \<open>
  On the sample instance, in the world where \<open>p.aleo/main\<close> is cached already: the second
  execution asks for no synthesis and the cache keeps its one entry.
\<close>

theorem cached_keys_no_synthesis_witness:
  "Program_fromString sample_imports ''p.aleo'' = Inr ''p.aleo'' \<and>
   fst (containsKeys (pm_keyProvider (pms sample_world_cached (module_programManager sample_module)))
          (Program_id sample_imports ''p.aleo'' @ ''/'' @ ''main'') sample_world_cached) \<and>
   map arg_cacheFunctionKeys
     (executeOffline_calls
        (emitted sample_world_cached
           (snd (localProgramExecution sample_imports sample_module ''p.aleo'' ''main''
                   ''inputs'' sample_world_cached))))
     = [False] \<and>
   filter is_cacheKeys
     (emitted sample_world_cached
        (snd (localProgramExecution sample_imports sample_module ''p.aleo'' ''main''
                ''inputs'' sample_world_cached)))
     = [] \<and>
   cache (kps (snd (localProgramExecution sample_imports sample_module ''p.aleo'' ''main''
                      ''inputs'' sample_world_cached)) 0)
     = [(''p.aleo/main'', ''pk'', ''vk'')]"
proof -
  have cached: "fst (containsKeys
          (pm_keyProvider (pms sample_world_cached (module_programManager sample_module)))
          (Program_id sample_imports ''p.aleo'' @ ''/'' @ ''main'') sample_world_cached)"
    using sample_world_cached_store sample_world_store
    by (simp add: containsKeys_def sample_module_def sample_id)
  from cached_keys_no_synthesis[OF sample_parse cached, where inputs = "''inputs''"]
  show ?thesis
    using cached sample_parse sample_world_cached_store by simp
qed

subsection \<open>The order of the offline execution pipeline\<close>

text \<open>
  Claim C4: in every call to \<open>localProgramExecution\<close> the stages run in the order
  parsing, execution, output extraction: the first call is \<open>Program.fromString\<close> on the
  program source, and the stages that ran are an initial part of the three. A call that
  returns has run all three: \<open>executeOffline\<close> once, on the program source, the function
  name and the inputs, then, as its last two calls, \<open>getOutputs\<close> and \<open>toString\<close> on the
  response of \<open>executeOffline\<close>; and it returns the pair of the outputs and the execution
  string. A call that does not return passes on what \<open>Program.fromString\<close>,
  \<open>executeOffline\<close> or \<open>getKeys\<close> threw.
\<close>

theorem offline_execution_pipeline_order:
  "prefix
     (stages (emitted w (snd (localProgramExecution imp m program_source aleoFunction inputs w))))
     [Parsing, Execution, Output_extraction] \<and>
   hd (emitted w (snd (localProgramExecution imp m program_source aleoFunction inputs w)))
     = Call_Program_fromString program_source \<and>
   (\<forall>outputs execution.
      fst (localProgramExecution imp m program_source aleoFunction inputs w)
        = Inr (outputs, execution) \<longrightarrow>
      stages (emitted w (snd (localProgramExecution imp m program_source aleoFunction inputs w)))
        = [Parsing, Execution, Output_extraction] \<and>
      (\<exists>args executionResponse.
         executeOffline_calls
           (emitted w (snd (localProgramExecution imp m program_source aleoFunction inputs w)))
           = [args] \<and>
         arg_program args = program_source \<and>
         arg_function args = aleoFunction \<and>
         arg_inputs args = inputs \<and>
         PM_executeOffline imp (clock w) (pms w (module_programManager m))
           (kps w (pm_keyProvider (pms w (module_programManager m)))) args
           = Inr executionResponse \<and>
         (\<exists>before.
            emitted w (snd (localProgramExecution imp m program_source aleoFunction inputs w))
              = before @ [Call_getOutputs executionResponse, Call_toString executionResponse]) \<and>
         outputs = ExecutionResponse_getOutputs imp executionResponse \<and>
         execution = ExecutionResponse_toString imp executionResponse)) \<and>
   (\<forall>e. fst (localProgramExecution imp m program_source aleoFunction inputs w) = Inl e \<longrightarrow>
      Program_fromString imp program_source = Inl e \<or>
      (\<exists>args. PM_executeOffline imp (clock w) (pms w (module_programManager m))
                 (kps w (pm_keyProvider (pms w (module_programManager m)))) args = Inl e) \<or>
      (\<exists>executionResponse program.
         ExecutionResponse_getKeys imp executionResponse (Program_id imp program) aleoFunction
           = Inl e))"
proof (intro conjI allI impI)
  show "prefix
     (stages (emitted w (snd (localProgramExecution imp m program_source aleoFunction inputs w))))
     [Parsing, Execution, Output_extraction]"
    by (rule lpe_stages_prefix)
next
  show "hd (emitted w (snd (localProgramExecution imp m program_source aleoFunction inputs w)))
     = Call_Program_fromString program_source"
    by (rule lpe_first_call)
next
  fix outputs execution
  assume "fst (localProgramExecution imp m program_source aleoFunction inputs w)
        = Inr (outputs, execution)"
  from lpe_returns[OF this]
  show "stages (emitted w (snd (localProgramExecution imp m program_source aleoFunction inputs w)))
        = [Parsing, Execution, Output_extraction]"
    by blast
next
  fix outputs execution
  assume "fst (localProgramExecution imp m program_source aleoFunction inputs w)
        = Inr (outputs, execution)"
  from lpe_returns[OF this]
  show "\<exists>args executionResponse.
         executeOffline_calls
           (emitted w (snd (localProgramExecution imp m program_source aleoFunction inputs w)))
           = [args] \<and>
         arg_program args = program_source \<and>
         arg_function args = aleoFunction \<and>
         arg_inputs args = inputs \<and>
         PM_executeOffline imp (clock w) (pms w (module_programManager m))
           (kps w (pm_keyProvider (pms w (module_programManager m)))) args
           = Inr executionResponse \<and>
         (\<exists>before.
            emitted w (snd (localProgramExecution imp m program_source aleoFunction inputs w))
              = before @ [Call_getOutputs executionResponse, Call_toString executionResponse]) \<and>
         outputs = ExecutionResponse_getOutputs imp executionResponse \<and>
         execution = ExecutionResponse_toString imp executionResponse"
    by blast
next
  fix e
  assume "fst (localProgramExecution imp m program_source aleoFunction inputs w) = Inl e"
  then show "Program_fromString imp program_source = Inl e \<or>
      (\<exists>args. PM_executeOffline imp (clock w) (pms w (module_programManager m))
                 (kps w (pm_keyProvider (pms w (module_programManager m)))) args = Inl e) \<or>
      (\<exists>executionResponse program.
         ExecutionResponse_getKeys imp executionResponse (Program_id imp program) aleoFunction
           = Inl e)"
    by (rule lpe_fails)
qed

text \<open>On the sample instance the call returns, after the three stages in order.\<close>

theorem offline_execution_pipeline_order_witness:
  "fst (localProgramExecution sample_imports sample_module ''p.aleo'' ''main'' ''inputs''
          sample_world) = Inr (''outputs'', ''response'') \<and>
   stages (emitted sample_world
     (snd (localProgramExecution sample_imports sample_module ''p.aleo'' ''main'' ''inputs''
             sample_world))) = [Parsing, Execution, Output_extraction] \<and>
   hd (emitted sample_world
     (snd (localProgramExecution sample_imports sample_module ''p.aleo'' ''main'' ''inputs''
             sample_world))) = Call_Program_fromString ''p.aleo''"
proof -
  have returns: "fst (localProgramExecution sample_imports sample_module ''p.aleo'' ''main''
      ''inputs'' sample_world) = Inr (''outputs'', ''response'')"
    by (simp add: localProgramExecution_def cache_function_keys_def sample_imports_def
        prim_defs Let_def split: prod.splits)
  from offline_execution_pipeline_order
         [where imp = sample_imports and m = sample_module and program_source = "''p.aleo''"
            and aleoFunction = "''main''" and inputs = "''inputs''" and w = sample_world]
       returns
  show ?thesis by blast
qed

subsection \<open>Module evaluation\<close>

lemma caching_wired_invoke:
  "caching_wired m w \<Longrightarrow> caching_wired m (invoke imp m i w)"
  by (cases i)
     (auto simp add: caching_wired_def deployProgram_def getPrivateKey_def
        localProgramExecution_def cache_function_keys_def synthesizeKeys_def
        verifyExecution_def prim_defs Let_def
        split: sum.splits prod.splits option.splits if_splits)

lemma caching_wired_run:
  "caching_wired m w \<Longrightarrow> caching_wired m (run imp m is w)"
  by (induction "is" arbitrary: w) (simp_all add: caching_wired_invoke)

lemma trace_invoke:
  "prefix (trace w) (trace (invoke imp m i w))"
  by (cases i)
     (auto simp add: deployProgram_def getPrivateKey_def
        localProgramExecution_def cache_function_keys_def synthesizeKeys_def
        verifyExecution_def prim_defs Let_def
        split: sum.splits prod.splits option.splits if_splits)

lemma trace_run:
  "prefix (trace w) (trace (run imp m is w))"
proof (induction "is" arbitrary: w)
  case Nil
  show ?case by simp
next
  case (Cons i "is")
  have "prefix (trace w) (trace (invoke imp m i w))"
    by (rule trace_invoke)
  also have "prefix (trace (invoke imp m i w)) (trace (run imp m is (invoke imp m i w)))"
    by (rule Cons.IH)
  finally show ?case by simp
qed

text \<open>
  Claim C6: when module evaluation completes, its trace begins with \<open>initThreadPool\<close>,
  the creation of the module-level key provider and \<open>useCache(true)\<close> on it, and ends
  with the one call to \<open>expose\<close>; and after any sequence of invocations of the exposed
  functions, whose calls all come after those of module evaluation, the module-level
  program manager, which \<open>synthesizeKeys\<close> and \<open>localProgramExecution\<close> use, still points
  to the module-level key provider and caching is on there.
\<close>

theorem caching_enabled_before_any_method:
  assumes "worker_init imp = Inr (m, w0)"
  shows "take 3 (trace w0) =
           [Call_initThreadPool, Call_new_AleoKeyProvider (module_keyProvider m),
            Call_useCache (module_keyProvider m) True] \<and>
         last (trace w0) = Call_expose (map fst workerMethods) \<and>
         length (filter (\<lambda>c. c = Call_expose (map fst workerMethods)) (trace w0)) = 1 \<and>
         (\<forall>invocations.
            prefix (trace w0) (trace (run imp m invocations w0)) \<and>
            pm_keyProvider (pms (run imp m invocations w0) (module_programManager m)) =
              module_keyProvider m \<and>
            cacheOption (kps (run imp m invocations w0) (module_keyProvider m)))"
proof -
  from assms have wired: "caching_wired m w0"
    by (auto simp add: worker_init_def caching_wired_def prim_defs world0_def Let_def
        split: option.splits)
  from assms have evaluation: "take 3 (trace w0) =
           [Call_initThreadPool, Call_new_AleoKeyProvider (module_keyProvider m),
            Call_useCache (module_keyProvider m) True] \<and>
         last (trace w0) = Call_expose (map fst workerMethods) \<and>
         length (filter (\<lambda>c. c = Call_expose (map fst workerMethods)) (trace w0)) = 1"
    by (auto simp add: worker_init_def prim_defs world0_def Let_def split: option.splits)
  from caching_wired_run[OF wired] trace_run evaluation show ?thesis
    by (auto simp add: caching_wired_def)
qed

text \<open>
  On the sample instance, after a key synthesis, a deployment and a local execution.
\<close>

theorem caching_enabled_before_any_method_witness:
  "worker_init sample_imports = Inr (sample_module, sample_world) \<and>
   last (trace sample_world) = Call_expose (map fst workerMethods) \<and>
   pm_keyProvider
     (pms (run sample_imports sample_module
             [Invoke_synthesizeKeys ''p.aleo'' ''main'', Invoke_deployProgram ''p.aleo'',
              Invoke_localProgramExecution ''p.aleo'' ''main'' ''inputs'']
             sample_world)
        (module_programManager sample_module)) = module_keyProvider sample_module \<and>
   cacheOption
     (kps (run sample_imports sample_module
             [Invoke_synthesizeKeys ''p.aleo'' ''main'', Invoke_deployProgram ''p.aleo'',
              Invoke_localProgramExecution ''p.aleo'' ''main'' ''inputs'']
             sample_world)
        (module_keyProvider sample_module))"
  using caching_enabled_before_any_method[OF sample_init] sample_init by blast

subsection \<open>Deployment\<close>

text \<open>
  Claim C7: for every program argument, \<open>deployProgram\<close> builds its account from the
  string \<open>user1PrivateKey\<close> and, once the account is built, makes one call to \<open>deploy\<close>,
  with the program and the fee 1.9, on a program manager whose account and whose record
  provider's account are that account; it returns what \<open>deploy\<close> returns. The fee and the
  account are the same whatever the program, the module bindings and the world. When the
  account cannot be built from the string, nothing is deployed.
\<close>

theorem deployProgram_fixed_fee_and_account:
  "(case Account_from_privateKey imp ''user1PrivateKey'' of
      Inl e \<Rightarrow>
        fst (deployProgram imp m program w) = Inl e \<and>
        filter is_deploy (emitted w (snd (deployProgram imp m program w))) = []
    | Inr user1 \<Rightarrow>
        filter is_deploy (emitted w (snd (deployProgram imp m program w))) =
          [Call_deploy (Suc (next_ref w)) program (19 / 10)] \<and>
        pms (snd (deployProgram imp m program w)) (Suc (next_ref w)) =
          \<lparr>pm_host = ''https://api.explorer.aleo.org/v1'', pm_keyProvider = next_ref w,
           pm_recordProvider = Some \<lparr>rp_account = user1,
             rp_networkClient = \<lparr>nc_host = ''https://api.explorer.aleo.org/v1''\<rparr>\<rparr>,
           pm_account = Some user1\<rparr> \<and>
        fst (deployProgram imp m program w) =
          PM_deploy imp (clock w)
            (pms (snd (deployProgram imp m program w)) (Suc (next_ref w)))
            \<lparr>cache = [], cacheOption = True\<rparr> program (19 / 10))"
  by (simp add: deployProgram_def emitted_def prim_defs Let_def split: sum.splits prod.splits)

text \<open>On the sample instance the account is built and the program is deployed.\<close>

theorem deployProgram_fixed_fee_and_account_witness:
  "Account_from_privateKey sample_imports ''user1PrivateKey'' = Inr ''account of user1PrivateKey'' \<and>
   filter is_deploy (emitted sample_world
      (snd (deployProgram sample_imports sample_module ''p.aleo'' sample_world))) =
     [Call_deploy 3 ''p.aleo'' (19 / 10)] \<and>
   pm_account (pms (snd (deployProgram sample_imports sample_module ''p.aleo'' sample_world)) 3)
     = Some ''account of user1PrivateKey'' \<and>
   fst (deployProgram sample_imports sample_module ''p.aleo'' sample_world) = Inr ''tx''"
proof -
  have built: "Account_from_privateKey sample_imports ''user1PrivateKey'' =
      Inr ''account of user1PrivateKey''"
    by (simp add: sample_imports_def)
  have three: "Suc (next_ref sample_world) = 3"
    using sample_world_store by simp
  have tx: "PM_deploy sample_imports t pm kp p fee = Inr ''tx''" for t pm kp p fee
    by (simp add: sample_imports_def)
  from deployProgram_fixed_fee_and_account
         [where imp = sample_imports and m = sample_module and program = "''p.aleo''"
            and w = sample_world]
  show ?thesis
    unfolding built three tx by simp
qed

text \<open>
  Claim C8: \<open>deployProgram\<close> works on objects of its own. It creates a key provider, a
  network client, an account, a record provider and a program manager, in this order, and
  its calls are those creations, \<open>useCache\<close>, \<open>setAccount\<close> and \<open>deploy\<close> on the new
  objects. In a world where the module-level objects are allocated, a call leaves the
  module-level key provider, the module-level program manager and the key provider that
  program manager points to, and indeed every object allocated before, as they were;
  every stored object its calls name is newly allocated; and its result and its calls do
  not depend on the module-level bindings or on the content of the store.
\<close>

theorem deployProgram_leaves_module_objects:
  assumes "module_keyProvider m < next_ref w"
      and "module_programManager m < next_ref w"
      and "pm_keyProvider (pms w (module_programManager m)) < next_ref w"
  shows "kps (snd (deployProgram imp m program w)) (module_keyProvider m) =
           kps w (module_keyProvider m) \<and>
         pms (snd (deployProgram imp m program w)) (module_programManager m) =
           pms w (module_programManager m) \<and>
         kps (snd (deployProgram imp m program w))
             (pm_keyProvider (pms (snd (deployProgram imp m program w)) (module_programManager m))) =
           kps w (pm_keyProvider (pms w (module_programManager m))) \<and>
         (\<forall>r. r < next_ref w \<longrightarrow>
            kps (snd (deployProgram imp m program w)) r = kps w r \<and>
            pms (snd (deployProgram imp m program w)) r = pms w r) \<and>
         (\<forall>r \<in> set (concat (map refs_of (emitted w (snd (deployProgram imp m program w))))).
            next_ref w \<le> r) \<and>
         (\<forall>m' w'. next_ref w' = next_ref w \<and> clock w' = clock w \<longrightarrow>
            fst (deployProgram imp m' program w') = fst (deployProgram imp m program w) \<and>
            emitted w' (snd (deployProgram imp m' program w')) =
              emitted w (snd (deployProgram imp m program w))) \<and>
         emitted w (snd (deployProgram imp m program w)) =
           [Call_new_AleoKeyProvider (next_ref w),
            Call_useCache (next_ref w) True,
            Call_new_AleoNetworkClient ''https://api.explorer.aleo.org/v1'',
            Call_new_Account (Some ''user1PrivateKey'')] @
           (case Account_from_privateKey imp ''user1PrivateKey'' of
              Inl e \<Rightarrow> []
            | Inr account \<Rightarrow>
               [Call_new_NetworkRecordProvider account
                  \<lparr>nc_host = ''https://api.explorer.aleo.org/v1''\<rparr>,
                Call_new_ProgramManager (Suc (next_ref w)) ''https://api.explorer.aleo.org/v1''
                  (next_ref w)
                  (Some \<lparr>rp_account = account,
                     rp_networkClient = \<lparr>nc_host = ''https://api.explorer.aleo.org/v1''\<rparr>\<rparr>),
                Call_setAccount (Suc (next_ref w)) account,
                Call_deploy (Suc (next_ref w)) program (19 / 10)])"
  using assms
  by (auto simp add: deployProgram_def emitted_def prim_defs Let_def split: sum.splits prod.splits)

text \<open>
  On the sample instance, in the world where \<open>p.aleo/main\<close> is cached: the deployment
  leaves the cached keys where they are.
\<close>

theorem deployProgram_leaves_module_objects_witness:
  "module_keyProvider sample_module < next_ref sample_world_cached \<and>
   module_programManager sample_module < next_ref sample_world_cached \<and>
   pm_keyProvider (pms sample_world_cached (module_programManager sample_module))
     < next_ref sample_world_cached \<and>
   kps (snd (deployProgram sample_imports sample_module ''p.aleo'' sample_world_cached))
       (module_keyProvider sample_module) =
     \<lparr>cache = [(''p.aleo/main'', ''pk'', ''vk'')], cacheOption = True\<rparr> \<and>
   pms (snd (deployProgram sample_imports sample_module ''p.aleo'' sample_world_cached))
       (module_programManager sample_module) =
     pms sample_world_cached (module_programManager sample_module)"
proof -
  have a: "module_keyProvider sample_module < next_ref sample_world_cached"
    using sample_world_cached_store by (simp add: sample_module_def)
  have b: "module_programManager sample_module < next_ref sample_world_cached"
    using sample_world_cached_store by (simp add: sample_module_def)
  have c: "pm_keyProvider (pms sample_world_cached (module_programManager sample_module))
     < next_ref sample_world_cached"
    using sample_world_cached_store sample_world_store by (simp add: sample_module_def)
  have kp: "kps sample_world_cached (module_keyProvider sample_module) =
     \<lparr>cache = [(''p.aleo/main'', ''pk'', ''vk'')], cacheOption = True\<rparr>"
    using sample_world_cached_store by (simp add: sample_module_def)
  from deployProgram_leaves_module_objects
         [OF a b c, where imp = sample_imports and program = "''p.aleo''"]
       a b c kp
  show ?thesis by simp
qed

subsection \<open>Proven executions\<close>

text \<open>
  Claim C9: every call to \<open>executeOffline\<close> that \<open>localProgramExecution\<close> makes has the
  \<open>proveExecution\<close> argument true, and there is exactly one when the program source
  parses. The execution string a call returns is the \<open>toString\<close> of the response to that
  call; and when \<open>ExecutionResponse.fromString\<close> reads this string back as that
  response, \<open>verifyExecution\<close> on the string, in any world, makes the two calls
  \<open>ExecutionResponse.fromString\<close> on the string and \<open>programManager.verifyExecution\<close> on
  the response, and returns what the latter returns.
\<close>

theorem localProgramExecution_requests_proof:
  "set (map arg_proveExecution
          (executeOffline_calls
             (emitted w (snd (localProgramExecution imp m program_source aleoFunction inputs w)))))
     \<subseteq> {True} \<and>
   (\<forall>program. Program_fromString imp program_source = Inr program \<longrightarrow>
      map arg_proveExecution
        (executeOffline_calls
           (emitted w (snd (localProgramExecution imp m program_source aleoFunction inputs w))))
        = [True]) \<and>
   (\<forall>outputs execution.
      fst (localProgramExecution imp m program_source aleoFunction inputs w)
        = Inr (outputs, execution) \<longrightarrow>
      (\<exists>args executionResponse.
         executeOffline_calls
           (emitted w (snd (localProgramExecution imp m program_source aleoFunction inputs w)))
           = [args] \<and>
         arg_proveExecution args \<and>
         PM_executeOffline imp (clock w) (pms w (module_programManager m))
           (kps w (pm_keyProvider (pms w (module_programManager m)))) args
           = Inr executionResponse \<and>
         execution = ExecutionResponse_toString imp executionResponse \<and>
         (\<forall>w'. ExecutionResponse_fromString imp execution = Inr executionResponse \<longrightarrow>
            fst (verifyExecution imp m execution w') =
              PM_verifyExecution imp (clock w') (pms w' (module_programManager m))
                (kps w' (pm_keyProvider (pms w' (module_programManager m)))) executionResponse \<and>
            emitted w' (snd (verifyExecution imp m execution w')) =
              [Call_ExecutionResponse_fromString execution,
               Call_verifyExecution (module_programManager m) executionResponse])))"
proof (intro conjI allI impI)
  show "set (map arg_proveExecution
          (executeOffline_calls
             (emitted w (snd (localProgramExecution imp m program_source aleoFunction inputs w)))))
     \<subseteq> {True}"
    by (rule lpe_prove_flags)
next
  fix program
  assume "Program_fromString imp program_source = Inr program"
  then show "map arg_proveExecution
        (executeOffline_calls
           (emitted w (snd (localProgramExecution imp m program_source aleoFunction inputs w))))
        = [True]"
    by (rule lpe_proves_once)
next
  fix outputs execution
  assume "fst (localProgramExecution imp m program_source aleoFunction inputs w)
        = Inr (outputs, execution)"
  from lpe_returns[OF this] obtain args executionResponse where
    a: "executeOffline_calls
           (emitted w (snd (localProgramExecution imp m program_source aleoFunction inputs w)))
           = [args]"
    and b: "arg_proveExecution args"
    and c: "PM_executeOffline imp (clock w) (pms w (module_programManager m))
           (kps w (pm_keyProvider (pms w (module_programManager m)))) args
           = Inr executionResponse"
    and d: "execution = ExecutionResponse_toString imp executionResponse"
    by blast
  from a b c d verifyExecution_reads_back[where imp = imp and m = m and execution = execution
      and executionResponse = executionResponse]
  show "\<exists>args executionResponse.
         executeOffline_calls
           (emitted w (snd (localProgramExecution imp m program_source aleoFunction inputs w)))
           = [args] \<and>
         arg_proveExecution args \<and>
         PM_executeOffline imp (clock w) (pms w (module_programManager m))
           (kps w (pm_keyProvider (pms w (module_programManager m)))) args
           = Inr executionResponse \<and>
         execution = ExecutionResponse_toString imp executionResponse \<and>
         (\<forall>w'. ExecutionResponse_fromString imp execution = Inr executionResponse \<longrightarrow>
            fst (verifyExecution imp m execution w') =
              PM_verifyExecution imp (clock w') (pms w' (module_programManager m))
                (kps w' (pm_keyProvider (pms w' (module_programManager m)))) executionResponse \<and>
            emitted w' (snd (verifyExecution imp m execution w')) =
              [Call_ExecutionResponse_fromString execution,
               Call_verifyExecution (module_programManager m) executionResponse])"
    by blast
qed

text \<open>
  On the sample instance, where a response prints as itself: the execution is requested
  with a proof, and the returned string is verified.
\<close>

theorem localProgramExecution_requests_proof_witness:
  "Program_fromString sample_imports ''p.aleo'' = Inr ''p.aleo'' \<and>
   fst (localProgramExecution sample_imports sample_module ''p.aleo'' ''main'' ''inputs''
          sample_world) = Inr (''outputs'', ''response'') \<and>
   map arg_proveExecution
     (executeOffline_calls
        (emitted sample_world
           (snd (localProgramExecution sample_imports sample_module ''p.aleo'' ''main''
                   ''inputs'' sample_world))))
     = [True] \<and>
   ExecutionResponse_fromString sample_imports ''response'' = Inr ''response'' \<and>
   fst (verifyExecution sample_imports sample_module ''response'' sample_world_cached)
     = Inr ''true''"
proof -
  have returns: "fst (localProgramExecution sample_imports sample_module ''p.aleo'' ''main''
      ''inputs'' sample_world) = Inr (''outputs'', ''response'')"
    by (simp add: localProgramExecution_def cache_function_keys_def sample_imports_def
        prim_defs Let_def split: prod.splits)
  have reads_back: "ExecutionResponse_fromString sample_imports ''response'' = Inr ''response''"
    by (simp add: sample_imports_def)
  have response: "PM_executeOffline sample_imports t pm kp args = Inr r \<longleftrightarrow> r = ''response''"
    for t pm kp args r
    by (auto simp add: sample_imports_def)
  have verified: "PM_verifyExecution sample_imports t pm kp r = Inr ''true''" for t pm kp r
    by (simp add: sample_imports_def)
  note t = localProgramExecution_requests_proof
         [where imp = sample_imports and m = sample_module and program_source = "''p.aleo''"
            and aleoFunction = "''main''" and inputs = "''inputs''" and w = sample_world]
  from t sample_parse have proof_requested: "map arg_proveExecution
     (executeOffline_calls
        (emitted sample_world
           (snd (localProgramExecution sample_imports sample_module ''p.aleo'' ''main''
                   ''inputs'' sample_world))))
     = [True]"
    by blast
  from t returns reads_back have "fst (verifyExecution sample_imports sample_module ''response''
      sample_world_cached) = Inr ''true''"
    unfolding response verified by blast
  with sample_parse returns proof_requested reads_back show ?thesis
    by blast
qed

subsection \<open>The re-export module\<close>

text \<open>
  Claim C5, the line count: the claim calls the module two lines long. The file has six
  lines, five of them statements.
\<close>

theorem index_js_not_two_lines:
  "\<not> (length index_js = 2) \<and>
   \<not> (length (filter is_import index_js) + length (filter is_export index_js) = 2)"
  by (simp add: index_js_def)

text \<open>
  Claim C5, as amended: the module is four import lines, one export line and a source-map
  comment; it re-exports exactly Account, Address, AleoNetworkClient, DevelopmentClient,
  PrivateKey, Signature and ViewKey; Address, PrivateKey, Signature and ViewKey are bound
  by the import from the WASM binding package \<open>@aleohq/wasm\<close>, and Account,
  AleoNetworkClient and DevelopmentClient by the imports from the SDK modules
  \<open>./account\<close>, \<open>./node_connection\<close> and \<open>./development_client\<close>.
\<close>

theorem index_js_exports:
  "length (filter is_import index_js) = 4 \<and>
   length (filter is_export index_js) = 1 \<and>
   length (filter is_comment index_js) = 1 \<and>
   length index_js = 6 \<and>
   exports index_js =
     [(''Account'', Some ''./account''),
      (''Address'', Some ''@aleohq/wasm''),
      (''AleoNetworkClient'', Some ''./node_connection''),
      (''DevelopmentClient'', Some ''./development_client''),
      (''PrivateKey'', Some ''@aleohq/wasm''),
      (''Signature'', Some ''@aleohq/wasm''),
      (''ViewKey'', Some ''@aleohq/wasm'')]"
  by (simp add: index_js_def exports_def module_scope_def)

end
